theory Spec2Isabelle
  imports Main
begin

section \<open>The notmuch command dispatcher (notmuch.c)\<close>

text \<open>
  This theory embeds the command-dispatch layer of the notmuch command-line client:
  the command table and its lookup, the shared option handler, the two compatibility
  gates, the help resolver and \<open>main\<close>. Everything the file does to the outside world
  (printing, terminating the process, replacing the process image, opening the
  configuration) is recorded in a trace of events, and every function returns the trace
  it produced together with the way it ended.
\<close>

subsection \<open>C strings and formatted output\<close>

text \<open>
  A \<open>char *\<close> is a \<open>string option\<close>: \<open>None\<close> is the null pointer, \<open>Some s\<close> points to
  the bytes \<open>s\<close> that precede the terminating NUL. \<open>strcmp\<close> takes two non-null
  pointers and compares byte by byte, as unsigned bytes; the terminator is smaller than
  every byte of a string. Only the sign of the result is fixed by the C standard.
\<close>

fun strcmp :: "string \<Rightarrow> string \<Rightarrow> int" where
  "strcmp [] [] = 0"
| "strcmp [] (y # ys) = - 1"
| "strcmp (x # xs) [] = 1"
| "strcmp (x # xs) (y # ys) =
     (if (of_char x :: nat) < of_char y then - 1
      else if (of_char y :: nat) < of_char x then 1
      else strcmp xs ys)"

definition nl :: string where
  "nl = [CHR 0x0A]"

definition tab :: string where
  "tab = [CHR 0x09]"

definition dq :: string where
  "dq = [CHR 0x22]"

definition sq :: string where
  "sq = [CHR 0x27]"

text \<open>The conversion \<open>%d\<close> of \<open>printf\<close>: a decimal numeral, with a minus sign when negative.\<close>

definition digit_char :: "nat \<Rightarrow> char" where
  "digit_char d = ''0123456789'' ! d"

fun decimal :: "nat \<Rightarrow> string" where
  "decimal n = (if 10 \<le> n then decimal (n div 10) else []) @ [digit_char (n mod 10)]"

declare decimal.simps [simp del]

definition fmt_d :: "int \<Rightarrow> string" where
  "fmt_d i = (if i < 0 then ''-'' @ decimal (nat (- i)) else decimal (nat i))"

text \<open>
  The conversion \<open>%s\<close>. The C library in use prints \<open>(null)\<close> for a null pointer; no
  claim below depends on that case.
\<close>

definition fmt_s :: "string option \<Rightarrow> string" where
  "fmt_s p = (case p of None \<Rightarrow> ''(null)'' | Some s \<Rightarrow> s)"

text \<open>The conversion \<open>%-12s\<close>: left-justified, padded with spaces to twelve columns.\<close>

definition fmt_s12 :: "string option \<Rightarrow> string" where
  "fmt_s12 p = fmt_s p @ replicate (12 - length (fmt_s p)) CHR '' ''"

subsection \<open>Events and results\<close>

text \<open>The subcommand hooks a table entry can point to.\<close>

datatype command_function =
    notmuch_command
  | notmuch_setup_command
  | notmuch_new_command
  | notmuch_insert_command
  | notmuch_search_command
  | notmuch_address_command
  | notmuch_show_command
  | notmuch_count_command
  | notmuch_reply_command
  | notmuch_tag_command
  | notmuch_dump_command
  | notmuch_restore_command
  | notmuch_compact_command
  | notmuch_config_command
  | notmuch_help_command

text \<open>
  What the code does to the outside world, in the order it does it. \<open>Config_open f c ok\<close>
  is a call of \<open>notmuch_config_open\<close> with file name \<open>f\<close> and creation flag \<open>c\<close> that
  returned a handle (\<open>ok\<close>) or null; \<open>Fopen_w p ok\<close> is \<open>fopen (p, "w")\<close>;
  \<open>Execlp_man page\<close> is the call \<open>execlp ("man", "man", page, NULL)\<close>;
  \<open>Run f args\<close> is the call of a subcommand hook.
\<close>

datatype event =
    Stdout string
  | Stderr string
  | Perror string
  | Execlp_man string
  | Get_revision
  | Config_open "string option" bool bool
  | Config_close
  | Run command_function "string list"
  | Fopen_w string bool
  | Talloc_report_full

text \<open>
  How a function ends: it returns a value, it calls \<open>exit\<close> with a status, the process
  image is replaced by another program, or the behaviour is undefined (a null pointer
  given to \<open>strcmp\<close>).
\<close>

datatype 'a result = Returns 'a | Exits int | Replaced | Undefined

type_synonym 'a outcome = "event list \<times> 'a result"

text \<open>Sequencing: the rest of the function runs only when the first part returned.\<close>

definition seq :: "'a outcome \<Rightarrow> ('a \<Rightarrow> 'b outcome) \<Rightarrow> 'b outcome" where
  "seq m f =
     (case m of
        (tr, Returns x) \<Rightarrow> (case f x of (tr', r) \<Rightarrow> (tr @ tr', r))
      | (tr, Exits c) \<Rightarrow> (tr, Exits c)
      | (tr, Replaced) \<Rightarrow> (tr, Replaced)
      | (tr, Undefined) \<Rightarrow> (tr, Undefined))"

definition EXIT_SUCCESS :: int where
  "EXIT_SUCCESS = 0"

definition EXIT_FAILURE :: int where
  "EXIT_FAILURE = 1"

subsection \<open>The command table and the help topics\<close>

record command_t =
  name :: "string option"
  func :: command_function
  create_config :: bool
  summary :: string

definition commands :: "command_t list" where
  "commands =
    [\<lparr>name = None, func = notmuch_command, create_config = True,
        summary = ''Notmuch main command.''\<rparr>,
     \<lparr>name = Some ''setup'', func = notmuch_setup_command, create_config = True,
        summary = ''Interactively set up notmuch for first use.''\<rparr>,
     \<lparr>name = Some ''new'', func = notmuch_new_command, create_config = False,
        summary = ''Find and import new messages to the notmuch database.''\<rparr>,
     \<lparr>name = Some ''insert'', func = notmuch_insert_command, create_config = False,
        summary = ''Add a new message into the maildir and notmuch database.''\<rparr>,
     \<lparr>name = Some ''search'', func = notmuch_search_command, create_config = False,
        summary = ''Search for messages matching the given search terms.''\<rparr>,
     \<lparr>name = Some ''address'', func = notmuch_address_command, create_config = False,
        summary = ''Get addresses from messages matching the given search terms.''\<rparr>,
     \<lparr>name = Some ''show'', func = notmuch_show_command, create_config = False,
        summary = ''Show all messages matching the search terms.''\<rparr>,
     \<lparr>name = Some ''count'', func = notmuch_count_command, create_config = False,
        summary = ''Count messages matching the search terms.''\<rparr>,
     \<lparr>name = Some ''reply'', func = notmuch_reply_command, create_config = False,
        summary = ''Construct a reply template for a set of messages.''\<rparr>,
     \<lparr>name = Some ''tag'', func = notmuch_tag_command, create_config = False,
        summary = ''Add/remove tags for all messages matching the search terms.''\<rparr>,
     \<lparr>name = Some ''dump'', func = notmuch_dump_command, create_config = False,
        summary = ''Create a plain-text dump of the tags for each message.''\<rparr>,
     \<lparr>name = Some ''restore'', func = notmuch_restore_command, create_config = False,
        summary = ''Restore the tags from the given dump file (see '' @ sq @ ''dump'' @ sq @ '').''\<rparr>,
     \<lparr>name = Some ''compact'', func = notmuch_compact_command, create_config = False,
        summary = ''Compact the notmuch database.''\<rparr>,
     \<lparr>name = Some ''config'', func = notmuch_config_command, create_config = False,
        summary = ''Get or set settings in the notmuch configuration file.''\<rparr>,
     \<lparr>name = Some ''help'', func = notmuch_help_command, create_config = True,
        summary = ''This message, or more detailed help for the named command.''\<rparr>]"

record help_topic_t =
  topic_name :: string
  topic_summary :: string

definition help_topics :: "help_topic_t list" where
  "help_topics =
    [\<lparr>topic_name = ''search-terms'', topic_summary = ''Common search term syntax.''\<rparr>,
     \<lparr>topic_name = ''hooks'',
        topic_summary = ''Hooks that will be run before or after certain commands.''\<rparr>]"

text \<open>
  \<open>find_command\<close> scans the table from the first entry and returns the first entry that
  matches, or null. \<open>find_command_from\<close> is the loop over the entries still to visit.
\<close>

fun find_command_from :: "command_t list \<Rightarrow> string option \<Rightarrow> command_t option" where
  "find_command_from [] nm = None"
| "find_command_from (c # cs) nm =
     (if (case (nm, name c) of
            (None, None) \<Rightarrow> True
          | (Some n, Some m) \<Rightarrow> strcmp n m = 0
          | _ \<Rightarrow> False)
      then Some c
      else find_command_from cs nm)"

definition find_command :: "string option \<Rightarrow> command_t option" where
  "find_command nm = find_command_from commands nm"

subsection \<open>What the file takes from its surroundings\<close>

text \<open>
  The values the option parser stores through the option descriptors: the three shared
  options (the file's globals \<open>print_version\<close>, \<open>print_help\<close> and
  \<open>notmuch_requested_db_uuid\<close>, initially false, false and null), and for \<open>main\<close> the
  local \<open>config_file_name\<close> and the returned index of the first argument that is not an
  option (negative when parsing failed).
\<close>

record shared_options =
  print_version :: bool
  print_help :: bool
  notmuch_requested_db_uuid :: "string option"

record parse_outcome = shared_options +
  opt_index :: int
  config_file_name :: "string option"

text \<open>
  The functions and constants that \<open>notmuch.c\<close> uses and does not define are parameters:
  the version macro, the option parser, whether \<open>execlp\<close> replaces the process image
  for a page, whether \<open>notmuch_config_open\<close> returns a handle, what a subcommand hook
  does (it returns a status, or ends the process itself), the environment, and whether
  \<open>fopen\<close> for writing succeeds.
\<close>

record env =
  NOTMUCH_VERSION :: string
  parse_arguments :: "string list \<Rightarrow> parse_outcome"
  execlp_man :: "string \<Rightarrow> bool"
  notmuch_config_open :: "string option \<Rightarrow> bool \<Rightarrow> bool"
  run_command :: "command_function \<Rightarrow> string list \<Rightarrow> int result"
  getenv :: "string \<Rightarrow> string option"
  fopen_w :: "string \<Rightarrow> bool"

text \<open>
  The reference points of the output format version and the two exit codes of the format
  gate are macros and enumerators of \<open>notmuch-client.h\<close>; they are parameters too.
\<close>

record format_consts =
  NOTMUCH_FORMAT_CUR :: int
  NOTMUCH_FORMAT_MIN :: int
  NOTMUCH_FORMAT_MIN_ACTIVE :: int
  NOTMUCH_EXIT_FORMAT_TOO_OLD :: int
  NOTMUCH_EXIT_FORMAT_TOO_NEW :: int

text \<open>
  C's \<open>int\<close> is modelled by \<open>int\<close>: the file compares and prints these numbers and never
  does arithmetic on them that could overflow.
\<close>

subsection \<open>usage\<close>

definition usage_commands :: "(string \<Rightarrow> event) \<Rightarrow> command_t list \<Rightarrow> event list" where
  "usage_commands out cs =
     concat (map (\<lambda>command.
       if name command \<noteq> None
       then [out (''  '' @ fmt_s12 (name command) @ ''  '' @ summary command @ nl)]
       else []) cs)"

definition usage_topics :: "(string \<Rightarrow> event) \<Rightarrow> help_topic_t list \<Rightarrow> event list" where
  "usage_topics out ts =
     map (\<lambda>topic. out (''  '' @ fmt_s12 (Some (topic_name topic)) @ ''  '' @ topic_summary topic @ nl)) ts"

definition usage :: "(string \<Rightarrow> event) \<Rightarrow> event list" where
  "usage out =
     [out (''Usage: notmuch --help'' @ nl @
           ''       notmuch --version'' @ nl @
           ''       notmuch <command> [args...]'' @ nl),
      out nl,
      out (''The available commands are as follows:'' @ nl),
      out nl]
     @ usage_commands out commands @
     [out nl,
      out (''Additional help topics are as follows:'' @ nl),
      out nl]
     @ usage_topics out help_topics @
     [out nl,
      out (''Use '' @ dq @ ''notmuch help <command or topic>'' @ dq @ '' for more details '' @
           ''on each command or topic.'' @ nl @ nl)]"

subsection \<open>The format compatibility gate\<close>

definition notmuch_exit_if_unsupported_format :: "format_consts \<Rightarrow> int \<Rightarrow> unit outcome" where
  "notmuch_exit_if_unsupported_format K notmuch_format_version =
     (if notmuch_format_version > NOTMUCH_FORMAT_CUR K then
        ([Stderr (''A caller requested output format version '' @ fmt_d notmuch_format_version @
                  '', but the installed notmuch'' @ nl @
                  ''CLI only supports up to format version '' @ fmt_d (NOTMUCH_FORMAT_CUR K) @
                  ''.  You may need to upgrade your'' @ nl @
                  ''notmuch CLI.'' @ nl)],
         Exits (NOTMUCH_EXIT_FORMAT_TOO_NEW K))
      else if notmuch_format_version < NOTMUCH_FORMAT_MIN K then
        ([Stderr (''A caller requested output format version '' @ fmt_d notmuch_format_version @
                  '', which is no longer supported'' @ nl @
                  ''by the notmuch CLI (it requires at least version '' @
                  fmt_d (NOTMUCH_FORMAT_MIN K) @ '').  You may need to'' @ nl @
                  ''upgrade your notmuch front-end.'' @ nl)],
         Exits (NOTMUCH_EXIT_FORMAT_TOO_OLD K))
      else if notmuch_format_version < NOTMUCH_FORMAT_MIN_ACTIVE K then
        ([Stderr (''A caller requested deprecated output format version '' @
                  fmt_d notmuch_format_version @ '', which may not'' @ nl @
                  ''be supported in the future.'' @ nl)],
         Returns ())
      else ([], Returns ()))"

subsection \<open>The database identity gate\<close>

text \<open>
  \<open>notmuch_database_get_revision\<close> belongs to the library: \<open>get_revision notmuch\<close> is the
  value it returns, which the gate ignores, and the pointer it leaves in the local
  \<open>uuid\<close>, which starts as null. The gate hands \<open>uuid\<close> to \<open>strcmp\<close> without testing it.
\<close>

definition notmuch_exit_if_unmatched_db_uuid ::
  "('db \<Rightarrow> 'r \<times> string option) \<Rightarrow> 'a shared_options_scheme \<Rightarrow> 'db \<Rightarrow> unit outcome" where
  "notmuch_exit_if_unmatched_db_uuid get_revision G notmuch =
     (case notmuch_requested_db_uuid G of
        None \<Rightarrow> ([], Returns ())
      | Some requested \<Rightarrow>
          (case snd (get_revision notmuch) of
             None \<Rightarrow> ([Get_revision], Undefined)
           | Some uuid \<Rightarrow>
               if strcmp requested uuid \<noteq> 0 then
                 ([Get_revision,
                   Stderr (''Error: requested database revision '' @ requested @
                           '' does not match '' @ uuid @ nl)],
                  Exits 1)
               else ([Get_revision], Returns ())))"

subsection \<open>The help resolver\<close>

text \<open>
  \<open>execlp\<close> returns only when it failed, and then \<open>exec_man\<close> reports the error and
  exits: \<open>exec_man\<close> never returns to its caller.
\<close>

definition exec_man :: "env \<Rightarrow> string \<Rightarrow> unit outcome" where
  "exec_man E page =
     (if execlp_man E page then ([Execlp_man page], Replaced)
      else ([Execlp_man page, Perror ''exec man''], Exits 1))"

fun help_topics_loop :: "env \<Rightarrow> string \<Rightarrow> help_topic_t list \<Rightarrow> unit outcome" where
  "help_topics_loop E t [] = ([], Returns ())"
| "help_topics_loop E t (topic # rest) =
     seq (if strcmp t (topic_name topic) = 0
          then exec_man E (''notmuch-'' @ topic_name topic)
          else ([], Returns ()))
       (\<lambda>_. help_topics_loop E t rest)"

text \<open>The source's \<open>_help_for\<close>; an Isabelle name cannot start with an underscore.\<close>

definition help_for :: "env \<Rightarrow> string option \<Rightarrow> int outcome" where
  "help_for E topic =
     (case topic of
        None \<Rightarrow>
          ([Stdout (''The notmuch mail system.'' @ nl @ nl)] @ usage Stdout,
           Returns EXIT_SUCCESS)
      | Some t \<Rightarrow>
          if strcmp t ''help'' = 0 then
            ([Stdout (''The notmuch help system.'' @ nl @ nl @
                      tab @ ''Notmuch uses the man command to display help. In case'' @ nl @
                      tab @ ''of difficulties check that MANPATH includes the pages'' @ nl @
                      tab @ ''installed by notmuch.'' @ nl @ nl @
                      tab @ ''Try '' @ dq @ ''notmuch help'' @ dq @ '' for a list of topics.'' @ nl)],
             Returns EXIT_SUCCESS)
          else
            seq (case find_command (Some t) of
                   Some command \<Rightarrow> exec_man E (''notmuch-'' @ fmt_s (name command))
                 | None \<Rightarrow> ([], Returns ()))
              (\<lambda>_. seq (help_topics_loop E t help_topics)
                 (\<lambda>_. ([Stderr (nl @ ''Sorry, '' @ t @
                                 '' is not a known command. There'' @ sq @
                                 ''s not much I can do to help.'' @ nl @ nl)],
                        Returns EXIT_FAILURE))))"

subsection \<open>The shared option handler\<close>

definition notmuch_process_shared_options ::
  "env \<Rightarrow> 'a shared_options_scheme \<Rightarrow> string option \<Rightarrow> unit outcome" where
  "notmuch_process_shared_options E G subcommand_name =
     (if print_version G then
        ([Stdout (''notmuch '' @ NOTMUCH_VERSION E @ nl)], Exits EXIT_SUCCESS)
      else if print_help G then
        seq (help_for E subcommand_name) (\<lambda>ret. ([], Exits ret))
      else ([], Returns ()))"

subsection \<open>main\<close>

text \<open>
  The code from the label \<open>DONE\<close> to the end of \<open>main\<close>: \<open>config\<close> tells whether the
  local \<open>config\<close> is a handle, \<open>ret\<close> is the status so far.
\<close>

definition DONE :: "env \<Rightarrow> bool \<Rightarrow> int \<Rightarrow> int outcome" where
  "DONE E config ret =
     seq (if config then ([Config_close], Returns ()) else ([], Returns ()))
       (\<lambda>_. case getenv E ''NOTMUCH_TALLOC_REPORT'' of
               None \<Rightarrow> ([], Returns ret)
             | Some talloc_report \<Rightarrow>
                 if strcmp talloc_report [] \<noteq> 0 then
                   (if fopen_w E talloc_report then
                      ([Fopen_w talloc_report True, Talloc_report_full], Returns ret)
                    else
                      ([Fopen_w talloc_report False,
                        Stderr ''ERROR: unable to write talloc log. '',
                        Perror talloc_report],
                       Returns 1))
                 else ([], Returns ret))"

text \<open>
  \<open>main\<close>. The calls that set up the allocator and the MIME library, the assignment of
  the current format version to \<open>notmuch_format_version\<close> (which only the hooks read) and
  the release of the allocation context leave no event. The hook receives the arguments
  from \<open>argv[opt_index]\<close> on.
\<close>

definition command_name_of :: "parse_outcome \<Rightarrow> string list \<Rightarrow> string option" where
  "command_name_of P argv =
     (if opt_index P < int (length argv) then Some (argv ! nat (opt_index P)) else None)"

definition main :: "env \<Rightarrow> string list \<Rightarrow> int outcome" where
  "main E argv =
     (let P = parse_arguments E argv in
      if opt_index P < 0 then DONE E False EXIT_FAILURE
      else
        let command_name = command_name_of P argv in
        seq (notmuch_process_shared_options E P command_name)
          (\<lambda>_. case find_command command_name of
                  None \<Rightarrow>
                    seq ([Stderr (''Error: Unknown command '' @ sq @ fmt_s command_name @ sq @
                                  '' (see '' @ dq @ ''notmuch help'' @ dq @ '')'' @ nl)],
                         Returns ())
                      (\<lambda>_. DONE E False EXIT_FAILURE)
                | Some command \<Rightarrow>
                    if notmuch_config_open E (config_file_name P) (create_config command) then
                      seq ([Config_open (config_file_name P) (create_config command) True,
                            Run (func command) (drop (nat (opt_index P)) argv)],
                           run_command E (func command) (drop (nat (opt_index P)) argv))
                        (\<lambda>ret. DONE E True ret)
                    else
                      seq ([Config_open (config_file_name P) (create_config command) False],
                           Returns ())
                        (\<lambda>_. DONE E False EXIT_FAILURE)))"

text \<open>Counting on a trace: configurations acquired and configurations released.\<close>

definition command_runs :: "event list \<Rightarrow> nat" where
  "command_runs tr = length (filter (\<lambda>e. case e of Run f args \<Rightarrow> True | _ \<Rightarrow> False) tr)"

definition acquires :: "event list \<Rightarrow> nat" where
  "acquires tr = length (filter (\<lambda>e. case e of Config_open f c ok \<Rightarrow> ok | _ \<Rightarrow> False) tr)"

definition releases :: "event list \<Rightarrow> nat" where
  "releases tr = length (filter (\<lambda>e. e = Config_close) tr)"

definition config_open_calls :: "event list \<Rightarrow> nat" where
  "config_open_calls tr =
     length (filter (\<lambda>e. case e of Config_open f c ok \<Rightarrow> True | _ \<Rightarrow> False) tr)"

subsection \<open>Concrete inputs\<close>

text \<open>A choice of format constants with three different reference points.\<close>

definition K0 :: format_consts where
  "K0 = \<lparr>NOTMUCH_FORMAT_CUR = 3, NOTMUCH_FORMAT_MIN = 1, NOTMUCH_FORMAT_MIN_ACTIVE = 2,
         NOTMUCH_EXIT_FORMAT_TOO_OLD = 20, NOTMUCH_EXIT_FORMAT_TOO_NEW = 21\<rparr>"

text \<open>Shared options with a requested database revision and nothing else.\<close>

definition G_abc :: shared_options where
  "G_abc = \<lparr>print_version = False, print_help = False,
            notmuch_requested_db_uuid = Some ''abc''\<rparr>"

text \<open>
  An environment in which everything succeeds: the parser finds no option and the command
  name at index 1, the viewer starts, the configuration opens, the hook returns 0, and no
  report is asked for. The other environments change one aspect of it.
\<close>

definition env0 :: env where
  "env0 = \<lparr>NOTMUCH_VERSION = ''0.19'',
           parse_arguments = (\<lambda>argv. \<lparr>print_version = False, print_help = False,
                                      notmuch_requested_db_uuid = None,
                                      opt_index = 1, config_file_name = None\<rparr>),
           execlp_man = (\<lambda>page. True),
           notmuch_config_open = (\<lambda>file create. True),
           run_command = (\<lambda>f args. Returns 0),
           getenv = (\<lambda>var. None),
           fopen_w = (\<lambda>path. True)\<rparr>"

definition env_version_help :: env where
  "env_version_help =
     env0\<lparr>parse_arguments := (\<lambda>argv. \<lparr>print_version = True, print_help = True,
                                        notmuch_requested_db_uuid = None,
                                        opt_index = 3, config_file_name = None\<rparr>)\<rparr>"

definition env_man_fails :: env where
  "env_man_fails = env0\<lparr>execlp_man := (\<lambda>page. False)\<rparr>"

definition argv_search :: "string list" where
  "argv_search = [''notmuch'', ''search'', ''tag:inbox'']"

definition argv_version_help :: "string list" where
  "argv_version_help = [''notmuch'', ''--help'', ''--version'', ''bogus'']"

definition env_version :: env where
  "env_version =
     env0\<lparr>parse_arguments := (\<lambda>argv. \<lparr>print_version = True, print_help = False,
                                        notmuch_requested_db_uuid = None,
                                        opt_index = 2, config_file_name = None\<rparr>)\<rparr>"

definition argv_version_bogus :: "string list" where
  "argv_version_bogus = [''notmuch'', ''--version'', ''bogus'']"

definition argv_bogus :: "string list" where
  "argv_bogus = [''notmuch'', ''bogus'']"

definition argv_empty_name :: "string list" where
  "argv_empty_name = [''notmuch'', []]"

definition env_report_fails :: env where
  "env_report_fails =
     env0\<lparr>getenv := (\<lambda>var. if var = ''NOTMUCH_TALLOC_REPORT'' then Some ''/nonexistent/report''
                           else None),
          fopen_w := (\<lambda>path. False)\<rparr>"

subsection \<open>Properties of the string functions\<close>

lemma strcmp_eq_0_iff: "strcmp a b = 0 \<longleftrightarrow> a = b"
  by (induction a b rule: strcmp.induct) auto

subsection \<open>Sequencing\<close>

lemma seq_Returns: "seq (tr, Returns x) f = (tr @ fst (f x), snd (f x))"
  by (simp add: seq_def split: prod.splits)

lemma seq_Exits: "seq (tr, Exits c) f = (tr, Exits c)"
  by (simp add: seq_def)

lemma seq_Replaced: "seq (tr, Replaced) f = (tr, Replaced)"
  by (simp add: seq_def)

lemma seq_Undefined: "seq (tr, Undefined) f = (tr, Undefined)"
  by (simp add: seq_def)

subsection \<open>Command lookup\<close>

text \<open>
  One step of the loop compares the whole name: the entry matches exactly when the two
  pointers are both null or point to equal strings.
\<close>

lemma find_command_from_Cons:
  "find_command_from (c # cs) nm = (if nm = name c then Some c else find_command_from cs nm)"
  by (cases nm; cases "name c") (simp_all add: strcmp_eq_0_iff)

lemma find_command_from_registered:
  "distinct (map name cs) \<Longrightarrow> c \<in> set cs \<Longrightarrow> find_command_from cs (name c) = Some c"
proof (induction cs)
  case Nil
  then show ?case by simp
next
  case (Cons d cs)
  show ?case
  proof (cases "name c = name d")
    case True
    with Cons.prems have "c = d"
      by (cases "c \<in> set cs") (auto simp: image_iff)
    then show ?thesis
      by (simp add: find_command_from_Cons del: find_command_from.simps)
  next
    case False
    with Cons.prems have "c \<in> set cs" "distinct (map name cs)"
      by auto
    with Cons.IH False show ?thesis
      by (simp add: find_command_from_Cons del: find_command_from.simps)
  qed
qed

lemma find_command_from_unregistered:
  "nm \<notin> name ` set cs \<Longrightarrow> find_command_from cs nm = None"
proof (induction cs)
  case Nil
  then show ?case by simp
next
  case (Cons d cs)
  then have "nm \<noteq> name d" "nm \<notin> name ` set cs"
    by auto
  with Cons.IH show ?case
    by (simp add: find_command_from_Cons del: find_command_from.simps)
qed

lemma find_command_from_Some:
  "find_command_from cs nm = Some c \<Longrightarrow> c \<in> set cs \<and> name c = nm"
proof (induction cs)
  case Nil
  then show ?case by simp
next
  case (Cons d cs)
  show ?case
  proof (cases "nm = name d")
    case True
    with Cons.prems have "c = d"
      by (simp add: find_command_from_Cons del: find_command_from.simps)
    with True show ?thesis by simp
  next
    case False
    with Cons.prems have "find_command_from cs nm = Some c"
      by (simp add: find_command_from_Cons del: find_command_from.simps)
    with Cons.IH show ?thesis by simp
  qed
qed

lemma distinct_command_names: "distinct (map name commands)"
  by (simp add: commands_def)

lemma command_names:
  "name ` set commands =
     {None, Some ''setup'', Some ''new'', Some ''insert'', Some ''search'', Some ''address'',
      Some ''show'', Some ''count'', Some ''reply'', Some ''tag'', Some ''dump'',
      Some ''restore'', Some ''compact'', Some ''config'', Some ''help''}"
  by (simp add: commands_def)

subsection \<open>The help resolver\<close>

text \<open>
  \<open>exec_man\<close> does not return, so whatever follows a call of it in \<open>_help_for\<close> does not
  run: the resolver ends in the delegation exactly when the name is in one of the tables.
\<close>

lemma seq_exec_man:
  "seq (exec_man E page) f =
     (if execlp_man E page then ([Execlp_man page], Replaced)
      else ([Execlp_man page, Perror ''exec man''], Exits 1))"
  by (simp add: exec_man_def seq_Replaced seq_Exits)

lemma help_topics_loop_absent:
  "t \<notin> topic_name ` set ts \<Longrightarrow> help_topics_loop E t ts = ([], Returns ())"
  by (induction ts) (simp_all add: strcmp_eq_0_iff seq_Returns)

lemma help_topics_loop_present:
  "t \<in> topic_name ` set ts \<Longrightarrow>
     help_topics_loop E t ts =
       (if execlp_man E (''notmuch-'' @ t) then ([Execlp_man (''notmuch-'' @ t)], Replaced)
        else ([Execlp_man (''notmuch-'' @ t), Perror ''exec man''], Exits 1))"
proof (induction ts)
  case Nil
  then show ?case by simp
next
  case (Cons topic ts)
  show ?case
  proof (cases "t = topic_name topic")
    case True
    then show ?thesis
      by (simp add: strcmp_eq_0_iff seq_exec_man)
  next
    case False
    with Cons.prems have "t \<in> topic_name ` set ts"
      by auto
    with Cons.IH False show ?thesis
      by (simp add: strcmp_eq_0_iff seq_Returns)
  qed
qed

lemma find_command_registered:
  "Some t \<in> name ` set commands \<Longrightarrow> \<exists>c. find_command (Some t) = Some c \<and> name c = Some t"
proof -
  assume "Some t \<in> name ` set commands"
  then obtain c where c: "c \<in> set commands" "name c = Some t"
    by force
  from find_command_from_registered [OF distinct_command_names c(1)] c(2)
  show ?thesis
    by (simp add: find_command_def)
qed

lemma find_command_unregistered:
  "nm \<notin> name ` set commands \<Longrightarrow> find_command nm = None"
  by (simp add: find_command_def find_command_from_unregistered)

lemma help_for_neither_table:
  assumes "Some t \<notin> name ` set commands" and "t \<notin> topic_name ` set help_topics"
  shows "help_for E (Some t) =
           ([Stderr (nl @ ''Sorry, '' @ t @ '' is not a known command. There'' @ sq @
                     ''s not much I can do to help.'' @ nl @ nl)],
            Returns EXIT_FAILURE)"
proof -
  from assms(1) have "t \<noteq> ''help''"
    by (auto simp: command_names)
  moreover from assms(1) have "find_command (Some t) = None"
    by (rule find_command_unregistered)
  ultimately show ?thesis
    using assms(2)
    by (simp add: help_for_def strcmp_eq_0_iff seq_Returns help_topics_loop_absent)
qed

lemma help_for_delegates:
  assumes "Some t \<in> name ` set commands \<or> t \<in> topic_name ` set help_topics"
    and "t \<noteq> ''help''"
  shows "help_for E (Some t) =
           (if execlp_man E (''notmuch-'' @ t) then ([Execlp_man (''notmuch-'' @ t)], Replaced)
            else ([Execlp_man (''notmuch-'' @ t), Perror ''exec man''], Exits 1))"
proof (cases "Some t \<in> name ` set commands")
  case True
  then obtain c where "find_command (Some t) = Some c" "name c = Some t"
    using find_command_registered by blast
  with assms(2) show ?thesis
    by (simp add: help_for_def strcmp_eq_0_iff seq_exec_man fmt_s_def)
next
  case False
  then have "find_command (Some t) = None"
    by (rule find_command_unregistered)
  moreover from False assms(1) have "t \<in> topic_name ` set help_topics"
    by simp
  ultimately show ?thesis
    using assms(2)
    by (simp add: help_for_def strcmp_eq_0_iff seq_Returns seq_Replaced seq_Exits
        help_topics_loop_present)
qed

lemma help_for_help:
  "snd (help_for E (Some ''help'')) = Returns EXIT_SUCCESS"
  by (simp add: help_for_def)

lemma help_for_None:
  "snd (help_for E None) = Returns EXIT_SUCCESS"
  by (simp add: help_for_def)

subsection \<open>The shared option handler and main, path by path\<close>

lemma process_shared_options_plain:
  "\<not> print_version G \<Longrightarrow> \<not> print_help G \<Longrightarrow>
     notmuch_process_shared_options E G s = ([], Returns ())"
  by (simp add: notmuch_process_shared_options_def)

lemma process_shared_options_version:
  "print_version G \<Longrightarrow>
     notmuch_process_shared_options E G s =
       ([Stdout (''notmuch '' @ NOTMUCH_VERSION E @ nl)], Exits EXIT_SUCCESS)"
  by (simp add: notmuch_process_shared_options_def)

lemma main_parse_failed:
  "opt_index (parse_arguments E argv) < 0 \<Longrightarrow> main E argv = DONE E False EXIT_FAILURE"
  by (simp add: main_def)

lemma main_version:
  "0 \<le> opt_index (parse_arguments E argv) \<Longrightarrow> print_version (parse_arguments E argv) \<Longrightarrow>
     main E argv = ([Stdout (''notmuch '' @ NOTMUCH_VERSION E @ nl)], Exits EXIT_SUCCESS)"
  by (simp add: main_def Let_def process_shared_options_version seq_Exits)

lemma main_help:
  "0 \<le> opt_index (parse_arguments E argv) \<Longrightarrow> \<not> print_version (parse_arguments E argv) \<Longrightarrow>
   print_help (parse_arguments E argv) \<Longrightarrow>
     main E argv =
       (fst (help_for E (command_name_of (parse_arguments E argv) argv)),
        case snd (help_for E (command_name_of (parse_arguments E argv) argv)) of
          Returns ret \<Rightarrow> Exits ret | Exits c \<Rightarrow> Exits c
        | Replaced \<Rightarrow> Replaced | Undefined \<Rightarrow> Undefined)"
  by (cases "help_for E (command_name_of (parse_arguments E argv) argv)";
      cases "snd (help_for E (command_name_of (parse_arguments E argv) argv))")
     (simp_all add: main_def Let_def notmuch_process_shared_options_def seq_def)

lemma main_unknown:
  assumes "0 \<le> opt_index (parse_arguments E argv)"
    and "\<not> print_version (parse_arguments E argv)"
    and "\<not> print_help (parse_arguments E argv)"
    and "find_command (command_name_of (parse_arguments E argv) argv) = None"
  shows "main E argv =
           (Stderr (''Error: Unknown command '' @ sq @
                    fmt_s (command_name_of (parse_arguments E argv) argv) @ sq @
                    '' (see '' @ dq @ ''notmuch help'' @ dq @ '')'' @ nl)
              # fst (DONE E False EXIT_FAILURE),
            snd (DONE E False EXIT_FAILURE))"
  using assms
  by (simp add: main_def Let_def process_shared_options_plain seq_Returns)

lemma main_config_failed:
  assumes "0 \<le> opt_index (parse_arguments E argv)"
    and "\<not> print_version (parse_arguments E argv)"
    and "\<not> print_help (parse_arguments E argv)"
    and "find_command (command_name_of (parse_arguments E argv) argv) = Some c"
    and "\<not> notmuch_config_open E (config_file_name (parse_arguments E argv)) (create_config c)"
  shows "main E argv =
           (Config_open (config_file_name (parse_arguments E argv)) (create_config c) False
              # fst (DONE E False EXIT_FAILURE),
            snd (DONE E False EXIT_FAILURE))"
  using assms
  by (simp add: main_def Let_def process_shared_options_plain seq_Returns)

lemma main_command:
  assumes "0 \<le> opt_index (parse_arguments E argv)"
    and "\<not> print_version (parse_arguments E argv)"
    and "\<not> print_help (parse_arguments E argv)"
    and "find_command (command_name_of (parse_arguments E argv) argv) = Some c"
    and "notmuch_config_open E (config_file_name (parse_arguments E argv)) (create_config c)"
  shows "main E argv =
           seq ([Config_open (config_file_name (parse_arguments E argv)) (create_config c) True,
                 Run (func c) (drop (nat (opt_index (parse_arguments E argv))) argv)],
                run_command E (func c) (drop (nat (opt_index (parse_arguments E argv))) argv))
             (\<lambda>ret. DONE E True ret)"
  using assms
  by (simp add: main_def Let_def process_shared_options_plain seq_Returns)

lemma DONE_eq:
  "DONE E config ret =
     ((if config then [Config_close] else []) @
      (case getenv E ''NOTMUCH_TALLOC_REPORT'' of
         None \<Rightarrow> []
       | Some p \<Rightarrow>
           if p = [] then []
           else if fopen_w E p then [Fopen_w p True, Talloc_report_full]
           else [Fopen_w p False, Stderr ''ERROR: unable to write talloc log. '', Perror p]),
      Returns (case getenv E ''NOTMUCH_TALLOC_REPORT'' of
                 None \<Rightarrow> ret
               | Some p \<Rightarrow> if p = [] \<or> fopen_w E p then ret else 1))"
  by (simp add: DONE_def seq_Returns strcmp_eq_0_iff split: option.splits)

lemma DONE_counts:
  "acquires (fst (DONE E config ret)) = 0"
  "releases (fst (DONE E config ret)) = (if config then 1 else 0)"
  "config_open_calls (fst (DONE E config ret)) = 0"
  by (simp_all add: DONE_eq acquires_def releases_def config_open_calls_def split: option.splits)

lemma DONE_Returns: "\<exists>r. snd (DONE E config ret) = Returns r"
  by (simp add: DONE_eq)

subsection \<open>Counting events\<close>

lemma acquires_simps:
  "acquires [] = 0"
  "acquires (e # tr) = (case e of Config_open f c ok \<Rightarrow> if ok then 1 else 0 | _ \<Rightarrow> 0) + acquires tr"
  "acquires (tr @ tr') = acquires tr + acquires tr'"
  by (simp_all add: acquires_def split: event.splits)

lemma releases_simps:
  "releases [] = 0"
  "releases (e # tr) = (if e = Config_close then 1 else 0) + releases tr"
  "releases (tr @ tr') = releases tr + releases tr'"
  by (simp_all add: releases_def)

lemma config_open_calls_simps:
  "config_open_calls [] = 0"
  "config_open_calls (e # tr) =
     (case e of Config_open f c ok \<Rightarrow> 1 | _ \<Rightarrow> 0) + config_open_calls tr"
  "config_open_calls (tr @ tr') = config_open_calls tr + config_open_calls tr'"
  by (simp_all add: config_open_calls_def split: event.splits)

lemma main_help_not_Returns:
  assumes "0 \<le> opt_index (parse_arguments E argv)"
    and "\<not> print_version (parse_arguments E argv)"
    and "print_help (parse_arguments E argv)"
  shows "snd (main E argv) \<noteq> Returns r"
  using main_help [OF assms] by (simp split: result.splits)

lemma command_runs_simps:
  "command_runs [] = 0"
  "command_runs (e # tr) = (case e of Run f args \<Rightarrow> 1 | _ \<Rightarrow> 0) + command_runs tr"
  "command_runs (tr @ tr') = command_runs tr + command_runs tr'"
  by (simp_all add: command_runs_def split: event.splits)

lemma DONE_command_runs: "command_runs (fst (DONE E config ret)) = 0"
  by (simp add: DONE_eq command_runs_def split: option.splits)

lemma DONE_failure: "snd (DONE E config EXIT_FAILURE) = Returns 1"
  by (simp add: DONE_eq EXIT_FAILURE_def split: option.splits)

lemma help_for_unregistered_trace:
  assumes "Some s \<notin> name ` set commands"
  shows "config_open_calls (fst (help_for E (Some s))) = 0
         \<and> command_runs (fst (help_for E (Some s))) = 0"
proof (cases "s \<in> topic_name ` set help_topics")
  case True
  from assms have "s \<noteq> ''help''"
    by (auto simp: command_names)
  with True show ?thesis
    by (simp add: help_for_delegates config_open_calls_simps command_runs_simps)
next
  case False
  with assms show ?thesis
    by (simp add: help_for_neither_table config_open_calls_simps command_runs_simps)
qed

lemma main_unregistered_trace:
  assumes "0 \<le> opt_index (parse_arguments E argv)"
    and "command_name_of (parse_arguments E argv) argv = Some s"
    and "Some s \<notin> name ` set commands"
  shows "config_open_calls (fst (main E argv)) = 0 \<and> command_runs (fst (main E argv)) = 0"
proof (cases "print_version (parse_arguments E argv)")
  case True
  with assms(1) show ?thesis
    by (simp add: main_version config_open_calls_simps command_runs_simps)
next
  case nv: False
  show ?thesis
  proof (cases "print_help (parse_arguments E argv)")
    case True
    from main_help [OF assms(1) nv True] assms(2) help_for_unregistered_trace [OF assms(3)]
    show ?thesis by simp
  next
    case nh: False
    from assms(2,3) have "find_command (command_name_of (parse_arguments E argv) argv) = None"
      by (simp add: find_command_unregistered)
    from main_unknown [OF assms(1) nv nh this] show ?thesis
      by (simp add: config_open_calls_simps command_runs_simps DONE_counts DONE_command_runs)
  qed
qed

subsection \<open>Every return of main goes through the teardown\<close>

lemma main_returns_through_DONE:
  assumes "snd (main E argv) = Returns r"
  shows "\<exists>tr config ret.
           main E argv = (tr @ fst (DONE E config ret), snd (DONE E config ret))
           \<and> acquires tr = (if config then 1 else 0) \<and> releases tr = 0"
proof (cases "opt_index (parse_arguments E argv) < 0")
  case True
  then have "main E argv = ([] @ fst (DONE E False EXIT_FAILURE), snd (DONE E False EXIT_FAILURE))"
    by (simp add: main_parse_failed)
  then show ?thesis
    by (intro exI [of _ "[]"] exI [of _ False] exI [of _ EXIT_FAILURE])
      (simp add: acquires_simps releases_simps)
next
  case False
  then have ok: "0 \<le> opt_index (parse_arguments E argv)"
    by simp
  show ?thesis
  proof (cases "print_version (parse_arguments E argv)")
    case True
    with ok assms show ?thesis
      by (simp add: main_version)
  next
    case nv: False
    show ?thesis
    proof (cases "print_help (parse_arguments E argv)")
      case True
      with ok nv assms main_help_not_Returns show ?thesis
        by blast
    next
      case nh: False
      show ?thesis
      proof (cases "find_command (command_name_of (parse_arguments E argv) argv)")
        case None
        from main_unknown [OF ok nv nh None] show ?thesis
          by (intro exI [of _ "[Stderr (''Error: Unknown command '' @ sq @
                    fmt_s (command_name_of (parse_arguments E argv) argv) @ sq @
                    '' (see '' @ dq @ ''notmuch help'' @ dq @ '')'' @ nl)]"]
              exI [of _ False] exI [of _ EXIT_FAILURE])
            (simp add: acquires_simps releases_simps)
      next
        case (Some c)
        show ?thesis
        proof (cases "notmuch_config_open E (config_file_name (parse_arguments E argv))
                        (create_config c)")
          case False
          from main_config_failed [OF ok nv nh Some False] show ?thesis
            by (intro exI [of _ "[Config_open (config_file_name (parse_arguments E argv))
                                    (create_config c) False]"]
                exI [of _ False] exI [of _ EXIT_FAILURE])
              (simp add: acquires_simps releases_simps)
        next
          case True
          note m = main_command [OF ok nv nh Some True]
          show ?thesis
          proof (cases "run_command E (func c)
                          (drop (nat (opt_index (parse_arguments E argv))) argv)")
            case (Returns h)
            with m show ?thesis
              by (intro exI [of _ "[Config_open (config_file_name (parse_arguments E argv))
                                      (create_config c) True,
                                    Run (func c)
                                      (drop (nat (opt_index (parse_arguments E argv))) argv)]"]
                  exI [of _ True] exI [of _ h])
                (simp add: seq_Returns acquires_simps releases_simps)
          next
            case (Exits x)
            with m assms show ?thesis
              by (simp add: seq_Exits)
          next
            case Replaced
            with m assms show ?thesis
              by (simp add: seq_Replaced)
          next
            case Undefined
            with m assms show ?thesis
              by (simp add: seq_Undefined)
          qed
        qed
      qed
    qed
  qed
qed

lemma main_balance_general:
  assumes "snd (main E argv) = Returns r"
  shows "releases (fst (main E argv)) = acquires (fst (main E argv))
         \<and> acquires (fst (main E argv)) \<le> 1"
proof -
  from main_returns_through_DONE [OF assms] obtain tr config ret
    where "main E argv = (tr @ fst (DONE E config ret), snd (DONE E config ret))"
      and "acquires tr = (if config then 1 else 0)" and "releases tr = 0"
    by blast
  then show ?thesis
    by (simp add: acquires_simps releases_simps DONE_counts)
qed

lemma main_Returns_DONE:
  assumes "snd (main E argv) = Returns r"
  shows "\<exists>config ret. snd (main E argv) = snd (DONE E config ret)"
proof -
  from main_returns_through_DONE [OF assms] obtain tr config ret
    where "main E argv = (tr @ fst (DONE E config ret), snd (DONE E config ret))"
    by blast
  then have "snd (main E argv) = snd (DONE E config ret)"
    by simp
  then show ?thesis by blast
qed

section \<open>The claims\<close>

text \<open>
  C1. With \<open>MIN \<le> MIN_ACTIVE \<le> CUR\<close>, the format gate exits with the "too new" code and
  a diagnostic naming the requested and the current version when the requested version
  is above \<open>CUR\<close>, exits with the "too old" code when it is below \<open>MIN\<close>, prints a
  deprecation warning and returns when it is from \<open>MIN\<close> up to but not including
  \<open>MIN_ACTIVE\<close>, and returns without output from \<open>MIN_ACTIVE\<close> to \<open>CUR\<close>. The
  boundary values \<open>MIN\<close>, \<open>MIN_ACTIVE\<close> and \<open>CUR\<close> return.
\<close>

theorem format_gate_branches:
  assumes "NOTMUCH_FORMAT_MIN K \<le> NOTMUCH_FORMAT_MIN_ACTIVE K"
    and "NOTMUCH_FORMAT_MIN_ACTIVE K \<le> NOTMUCH_FORMAT_CUR K"
  shows "(requested > NOTMUCH_FORMAT_CUR K \<longrightarrow>
            notmuch_exit_if_unsupported_format K requested =
              ([Stderr (''A caller requested output format version '' @ fmt_d requested @
                        '', but the installed notmuch'' @ nl @
                        ''CLI only supports up to format version '' @
                        fmt_d (NOTMUCH_FORMAT_CUR K) @
                        ''.  You may need to upgrade your'' @ nl @ ''notmuch CLI.'' @ nl)],
               Exits (NOTMUCH_EXIT_FORMAT_TOO_NEW K)))
       \<and> (requested < NOTMUCH_FORMAT_MIN K \<longrightarrow>
            notmuch_exit_if_unsupported_format K requested =
              ([Stderr (''A caller requested output format version '' @ fmt_d requested @
                        '', which is no longer supported'' @ nl @
                        ''by the notmuch CLI (it requires at least version '' @
                        fmt_d (NOTMUCH_FORMAT_MIN K) @ '').  You may need to'' @ nl @
                        ''upgrade your notmuch front-end.'' @ nl)],
               Exits (NOTMUCH_EXIT_FORMAT_TOO_OLD K)))
       \<and> (NOTMUCH_FORMAT_MIN K \<le> requested \<and> requested < NOTMUCH_FORMAT_MIN_ACTIVE K \<longrightarrow>
            notmuch_exit_if_unsupported_format K requested =
              ([Stderr (''A caller requested deprecated output format version '' @
                        fmt_d requested @ '', which may not'' @ nl @
                        ''be supported in the future.'' @ nl)],
               Returns ()))
       \<and> (NOTMUCH_FORMAT_MIN_ACTIVE K \<le> requested \<and> requested \<le> NOTMUCH_FORMAT_CUR K \<longrightarrow>
            notmuch_exit_if_unsupported_format K requested = ([], Returns ()))
       \<and> snd (notmuch_exit_if_unsupported_format K (NOTMUCH_FORMAT_MIN K)) = Returns ()
       \<and> snd (notmuch_exit_if_unsupported_format K (NOTMUCH_FORMAT_MIN_ACTIVE K)) = Returns ()
       \<and> snd (notmuch_exit_if_unsupported_format K (NOTMUCH_FORMAT_CUR K)) = Returns ()"
  using assms unfolding notmuch_exit_if_unsupported_format_def by auto

theorem format_gate_branches_witness:
  "NOTMUCH_FORMAT_MIN K0 \<le> NOTMUCH_FORMAT_MIN_ACTIVE K0
   \<and> NOTMUCH_FORMAT_MIN_ACTIVE K0 \<le> NOTMUCH_FORMAT_CUR K0
   \<and> notmuch_exit_if_unsupported_format K0 4 =
       ([Stderr (''A caller requested output format version 4, but the installed notmuch'' @ nl @
                 ''CLI only supports up to format version 3.  You may need to upgrade your'' @ nl @
                 ''notmuch CLI.'' @ nl)], Exits 21)
   \<and> notmuch_exit_if_unsupported_format K0 0 =
       ([Stderr (''A caller requested output format version 0, which is no longer supported'' @ nl @
                 ''by the notmuch CLI (it requires at least version 1).  You may need to'' @ nl @
                 ''upgrade your notmuch front-end.'' @ nl)], Exits 20)
   \<and> notmuch_exit_if_unsupported_format K0 1 =
       ([Stderr (''A caller requested deprecated output format version 1, which may not'' @ nl @
                 ''be supported in the future.'' @ nl)], Returns ())
   \<and> notmuch_exit_if_unsupported_format K0 2 = ([], Returns ())
   \<and> notmuch_exit_if_unsupported_format K0 3 = ([], Returns ())"
proof -
  have h1: "NOTMUCH_FORMAT_MIN K0 \<le> NOTMUCH_FORMAT_MIN_ACTIVE K0"
    and h2: "NOTMUCH_FORMAT_MIN_ACTIVE K0 \<le> NOTMUCH_FORMAT_CUR K0"
    by (simp_all add: K0_def)
  have d: "fmt_d 0 = ''0''" "fmt_d 1 = ''1''" "fmt_d 3 = ''3''" "fmt_d 4 = ''4''"
    by code_simp+
  show ?thesis
    using h1 h2 format_gate_branches [OF h1 h2, of 4] format_gate_branches [OF h1 h2, of 0]
      format_gate_branches [OF h1 h2, of 1] format_gate_branches [OF h1 h2, of 2]
      format_gate_branches [OF h1 h2, of 3]
    by (simp add: K0_def d)
qed


text \<open>
  C4. \<open>find_command\<close> returns, for the name of a table entry, that entry; for the null
  name the only entry without a name; and null for every other string. Names are compared
  whole and byte by byte: a prefix of a name or a name in another case is not found.
\<close>

theorem find_command_exact:
  "(\<forall>c \<in> set commands. \<forall>n. name c = Some n \<longrightarrow> find_command (Some n) = Some c)
   \<and> (\<forall>n. Some n \<in> name ` set commands \<longrightarrow>
          (\<exists>c \<in> set commands. find_command (Some n) = Some c \<and> name c = Some n))
   \<and> (\<exists>d. find_command None = Some d \<and> name d = None
          \<and> filter (\<lambda>c. name c = None) commands = [d])
   \<and> (\<forall>s. Some s \<notin> name ` set commands \<longrightarrow> find_command (Some s) = None)
   \<and> find_command (Some ''sea'') = None
   \<and> find_command (Some ''Search'') = None"
proof -
  have reg: "find_command (Some n) = Some c" if "c \<in> set commands" "name c = Some n" for c n
    using find_command_from_registered [OF distinct_command_names that(1)] that(2)
    by (simp add: find_command_def)
  have unreg: "find_command (Some s) = None" if "Some s \<notin> name ` set commands" for s
    using find_command_from_unregistered [OF that] by (simp add: find_command_def)
  have dflt: "\<exists>d. find_command None = Some d \<and> name d = None
          \<and> filter (\<lambda>c. name c = None) commands = [d]"
    by (simp add: find_command_def commands_def)
  have "find_command (Some ''sea'') = None"
    by (rule unreg) (simp add: command_names)
  moreover have "find_command (Some ''Search'') = None"
    by (rule unreg) (simp add: command_names)
  moreover have "\<forall>n. Some n \<in> name ` set commands \<longrightarrow>
          (\<exists>c \<in> set commands. find_command (Some n) = Some c \<and> name c = Some n)"
  proof (intro allI impI)
    fix n
    assume "Some n \<in> name ` set commands"
    then obtain c where "c \<in> set commands" "name c = Some n"
      by force
    with reg show "\<exists>c \<in> set commands. find_command (Some n) = Some c \<and> name c = Some n"
      by blast
  qed
  ultimately show ?thesis
    using reg unreg dflt by (intro conjI) blast+
qed

theorem find_command_exact_witness:
  "\<lparr>name = Some ''search'', func = notmuch_search_command, create_config = False,
      summary = ''Search for messages matching the given search terms.''\<rparr> \<in> set commands
   \<and> find_command (Some ''search'') =
       Some \<lparr>name = Some ''search'', func = notmuch_search_command, create_config = False,
              summary = ''Search for messages matching the given search terms.''\<rparr>
   \<and> Some ''searc'' \<notin> name ` set commands
   \<and> find_command (Some ''searc'') = None
   \<and> find_command None = Some (hd commands)"
proof -
  let ?c = "\<lparr>name = Some ''search'', func = notmuch_search_command, create_config = False,
      summary = ''Search for messages matching the given search terms.''\<rparr>"
  have m: "?c \<in> set commands"
    by (simp add: commands_def)
  have u: "Some ''searc'' \<notin> name ` set commands"
    by (simp add: command_names)
  have h: "filter (\<lambda>c. name c = None) commands = [hd commands]"
    by (simp add: commands_def)
  from find_command_exact have "find_command (Some ''search'') = Some ?c"
    using m by fastforce
  moreover from find_command_exact have "find_command (Some ''searc'') = None"
    using u by blast
  moreover from find_command_exact have "find_command None = Some (hd commands)"
    using h by auto
  ultimately show ?thesis using m u by blast
qed

text \<open>
  C2. When the database has the revision identifier \<open>A\<close>, the identity gate does nothing
  at all exactly when no identifier was requested; when \<open>R\<close> was requested it queries
  the database and returns if \<open>R\<close> and \<open>A\<close> are the same bytes, and otherwise prints a
  diagnostic with both values and exits with status 1.
\<close>

theorem uuid_gate_exact_match:
  assumes "snd (get_revision notmuch) = Some A"
  shows "(notmuch_exit_if_unmatched_db_uuid get_revision G notmuch = ([], Returns ())
            \<longleftrightarrow> notmuch_requested_db_uuid G = None)
       \<and> (\<forall>R. notmuch_requested_db_uuid G = Some R \<longrightarrow>
             notmuch_exit_if_unmatched_db_uuid get_revision G notmuch =
               (if R = A then ([Get_revision], Returns ())
                else ([Get_revision,
                       Stderr (''Error: requested database revision '' @ R @
                               '' does not match '' @ A @ nl)],
                      Exits 1)))"
proof (cases "notmuch_requested_db_uuid G")
  case None
  then show ?thesis
    by (simp add: notmuch_exit_if_unmatched_db_uuid_def)
next
  case (Some R)
  with assms show ?thesis
    by (simp add: notmuch_exit_if_unmatched_db_uuid_def strcmp_eq_0_iff)
qed

theorem uuid_gate_exact_match_witness:
  "snd ((\<lambda>_. (0::nat, Some ''ABC'')) ()) = Some ''ABC''
   \<and> notmuch_requested_db_uuid G_abc = Some ''abc''
   \<and> notmuch_exit_if_unmatched_db_uuid (\<lambda>_. (0::nat, Some ''ABC'')) G_abc () =
       ([Get_revision,
         Stderr (''Error: requested database revision abc does not match ABC'' @ nl)],
        Exits 1)"
proof -
  have h: "snd ((\<lambda>_. (0::nat, Some ''ABC'')) ()) = Some ''ABC''"
    by simp
  show ?thesis
    using h uuid_gate_exact_match [of "\<lambda>_. (0::nat, Some ''ABC'')" "()" "''ABC''" G_abc, OF h]
    by (simp add: G_abc_def)
qed




text \<open>
  C3. When the version option is set, \<open>notmuch_process_shared_options\<close> prints the version
  line and exits with success, whatever the help option and the subcommand name are. In
  \<open>main\<close>, once the parser has succeeded, this is all that happens: no help text, no
  command lookup, no diagnostic, whether or not the command name is in the table.
\<close>

theorem version_short_circuit:
  "(print_version G \<longrightarrow>
      notmuch_process_shared_options E G subcommand_name =
        ([Stdout (''notmuch '' @ NOTMUCH_VERSION E @ nl)], Exits EXIT_SUCCESS))
   \<and> (print_version (parse_arguments E argv) \<and> 0 \<le> opt_index (parse_arguments E argv) \<longrightarrow>
        main E argv = ([Stdout (''notmuch '' @ NOTMUCH_VERSION E @ nl)], Exits EXIT_SUCCESS))"
  by (simp add: process_shared_options_version main_version)

theorem version_short_circuit_witness:
  "print_version (parse_arguments env_version_help argv_version_help)
   \<and> print_help (parse_arguments env_version_help argv_version_help)
   \<and> 0 \<le> opt_index (parse_arguments env_version_help argv_version_help)
   \<and> find_command (command_name_of (parse_arguments env_version_help argv_version_help)
        argv_version_help) = None
   \<and> notmuch_process_shared_options env_version_help
        (parse_arguments env_version_help argv_version_help) (Some ''bogus'') =
        ([Stdout (''notmuch 0.19'' @ nl)], Exits 0)
   \<and> main env_version_help argv_version_help = ([Stdout (''notmuch 0.19'' @ nl)], Exits 0)"
proof -
  have h: "print_version (parse_arguments env_version_help argv_version_help)"
    "print_help (parse_arguments env_version_help argv_version_help)"
    "0 \<le> opt_index (parse_arguments env_version_help argv_version_help)"
    by (simp_all add: env_version_help_def env0_def)
  have c: "command_name_of (parse_arguments env_version_help argv_version_help)
        argv_version_help = Some ''bogus''"
    by (simp add: command_name_of_def env_version_help_def env0_def argv_version_help_def)
  have f: "find_command (Some ''bogus'') = None"
    by (simp add: find_command_def commands_def)
  have v: "NOTMUCH_VERSION env_version_help = ''0.19''"
    by (simp add: env_version_help_def env0_def)
  show ?thesis
    using h c f v
      version_short_circuit [of "parse_arguments env_version_help argv_version_help"
        env_version_help "Some ''bogus''" argv_version_help]
    by (simp add: EXIT_SUCCESS_def)
qed

text \<open>
  C5. Whenever \<open>main\<close> returns, the configuration was released as many times as it was
  acquired, and at most once. \<open>main\<close> returns with no acquisition and no release when
  the parser fails and when the command is unknown, and with one acquisition and one
  release when the hook returns.
\<close>

theorem main_config_balance:
  "(\<forall>r. snd (main E argv) = Returns r \<longrightarrow>
        releases (fst (main E argv)) = acquires (fst (main E argv))
        \<and> acquires (fst (main E argv)) \<le> 1)
   \<and> (opt_index (parse_arguments E argv) < 0 \<longrightarrow>
        (\<exists>r. snd (main E argv) = Returns r)
        \<and> acquires (fst (main E argv)) = 0 \<and> releases (fst (main E argv)) = 0)
   \<and> (0 \<le> opt_index (parse_arguments E argv)
       \<and> \<not> print_version (parse_arguments E argv) \<and> \<not> print_help (parse_arguments E argv)
       \<and> find_command (command_name_of (parse_arguments E argv) argv) = None \<longrightarrow>
        (\<exists>r. snd (main E argv) = Returns r)
        \<and> acquires (fst (main E argv)) = 0 \<and> releases (fst (main E argv)) = 0)
   \<and> (\<forall>c h. 0 \<le> opt_index (parse_arguments E argv)
       \<and> \<not> print_version (parse_arguments E argv) \<and> \<not> print_help (parse_arguments E argv)
       \<and> find_command (command_name_of (parse_arguments E argv) argv) = Some c
       \<and> notmuch_config_open E (config_file_name (parse_arguments E argv)) (create_config c)
       \<and> run_command E (func c) (drop (nat (opt_index (parse_arguments E argv))) argv)
           = Returns h \<longrightarrow>
        (\<exists>r. snd (main E argv) = Returns r)
        \<and> acquires (fst (main E argv)) = 1 \<and> releases (fst (main E argv)) = 1)"
proof (intro conjI allI impI)
  fix r
  assume "snd (main E argv) = Returns r"
  then show "releases (fst (main E argv)) = acquires (fst (main E argv))"
    and "acquires (fst (main E argv)) \<le> 1"
    using main_balance_general by blast+
next
  assume "opt_index (parse_arguments E argv) < 0"
  then show "\<exists>r. snd (main E argv) = Returns r"
    and "acquires (fst (main E argv)) = 0" and "releases (fst (main E argv)) = 0"
    by (simp_all add: main_parse_failed DONE_counts DONE_Returns)
next
  assume a: "0 \<le> opt_index (parse_arguments E argv)
       \<and> \<not> print_version (parse_arguments E argv) \<and> \<not> print_help (parse_arguments E argv)
       \<and> find_command (command_name_of (parse_arguments E argv) argv) = None"
  then have m: "main E argv =
           (Stderr (''Error: Unknown command '' @ sq @
                    fmt_s (command_name_of (parse_arguments E argv) argv) @ sq @
                    '' (see '' @ dq @ ''notmuch help'' @ dq @ '')'' @ nl)
              # fst (DONE E False EXIT_FAILURE),
            snd (DONE E False EXIT_FAILURE))"
    by (intro main_unknown) simp_all
  from m show "\<exists>r. snd (main E argv) = Returns r"
    by (simp add: DONE_Returns)
  from m show "acquires (fst (main E argv)) = 0"
    by (simp add: acquires_simps DONE_counts)
  from m show "releases (fst (main E argv)) = 0"
    by (simp add: releases_simps DONE_counts)
next
  fix c h
  assume a: "0 \<le> opt_index (parse_arguments E argv)
       \<and> \<not> print_version (parse_arguments E argv) \<and> \<not> print_help (parse_arguments E argv)
       \<and> find_command (command_name_of (parse_arguments E argv) argv) = Some c
       \<and> notmuch_config_open E (config_file_name (parse_arguments E argv)) (create_config c)
       \<and> run_command E (func c) (drop (nat (opt_index (parse_arguments E argv))) argv)
           = Returns h"
  then have "main E argv =
           seq ([Config_open (config_file_name (parse_arguments E argv)) (create_config c) True,
                 Run (func c) (drop (nat (opt_index (parse_arguments E argv))) argv)],
                run_command E (func c) (drop (nat (opt_index (parse_arguments E argv))) argv))
             (\<lambda>ret. DONE E True ret)"
    by (intro main_command) simp_all
  with a have m: "main E argv =
      ([Config_open (config_file_name (parse_arguments E argv)) (create_config c) True,
        Run (func c) (drop (nat (opt_index (parse_arguments E argv))) argv)]
       @ fst (DONE E True h), snd (DONE E True h))"
    by (simp add: seq_Returns)
  from m show "\<exists>r. snd (main E argv) = Returns r"
    by (simp add: DONE_Returns)
  from m show "acquires (fst (main E argv)) = 1"
    by (simp add: acquires_simps DONE_counts)
  from m show "releases (fst (main E argv)) = 1"
    by (simp add: releases_simps DONE_counts)
qed

theorem main_config_balance_witness:
  "snd (main env0 argv_search) = Returns 0
   \<and> acquires (fst (main env0 argv_search)) = 1
   \<and> releases (fst (main env0 argv_search)) = 1"
proof -
  have p: "0 \<le> opt_index (parse_arguments env0 argv_search)"
    "\<not> print_version (parse_arguments env0 argv_search)"
    "\<not> print_help (parse_arguments env0 argv_search)"
    by (simp_all add: env0_def)
  have c: "find_command (command_name_of (parse_arguments env0 argv_search) argv_search) =
      Some \<lparr>name = Some ''search'', func = notmuch_search_command, create_config = False,
             summary = ''Search for messages matching the given search terms.''\<rparr>"
    by (simp add: command_name_of_def env0_def argv_search_def find_command_def commands_def)
  have o: "notmuch_config_open env0 (config_file_name (parse_arguments env0 argv_search)) False"
    by (simp add: env0_def)
  have r: "run_command env0 notmuch_search_command
      (drop (nat (opt_index (parse_arguments env0 argv_search))) argv_search) = Returns 0"
    by (simp add: env0_def)
  have e: "main env0 argv_search =
      ([Config_open None False True, Run notmuch_search_command [''search'', ''tag:inbox''],
        Config_close], Returns 0)"
    using main_command [OF p c] o r
    by (simp add: seq_Returns DONE_eq env0_def argv_search_def)
  from main_config_balance [of env0 argv_search] p c o r e
  show ?thesis by simp
qed

text \<open>
  C6, as stated, fails: with the version option set and the unregistered name \<open>bogus\<close>
  as first argument that is not an option, \<open>main\<close> prints the version and exits with
  success, without any diagnostic.
\<close>

theorem unknown_command_version_counterexample:
  "command_name_of (parse_arguments env_version argv_version_bogus) argv_version_bogus
     = Some ''bogus''
   \<and> find_command (Some ''bogus'') = None
   \<and> main env_version argv_version_bogus = ([Stdout (''notmuch 0.19'' @ nl)], Exits 0)"
  by (simp add: main_def Let_def command_name_of_def env_version_def env0_def
      argv_version_bogus_def find_command_def commands_def
      notmuch_process_shared_options_def seq_def EXIT_SUCCESS_def)

text \<open>
  C6, amended. When the parser succeeded and the first argument that is not an option is
  not a command name, \<open>notmuch_config_open\<close> is never called and no hook runs. If neither
  the version nor the help option is set, \<open>main\<close> prints the unknown-command diagnostic
  with that argument and returns 1. If the help option is set, the version option is not,
  and the argument is not a help topic either, the help resolver prints its diagnostic
  with that argument and the process exits with status 1.
\<close>

theorem unknown_command_fails:
  assumes "0 \<le> opt_index (parse_arguments E argv)"
    and "opt_index (parse_arguments E argv) < int (length argv)"
    and "s = argv ! nat (opt_index (parse_arguments E argv))"
    and "Some s \<notin> name ` set commands"
  shows "config_open_calls (fst (main E argv)) = 0
       \<and> command_runs (fst (main E argv)) = 0
       \<and> (\<not> print_version (parse_arguments E argv) \<and> \<not> print_help (parse_arguments E argv) \<longrightarrow>
            main E argv =
              (Stderr (''Error: Unknown command '' @ sq @ s @ sq @
                       '' (see '' @ dq @ ''notmuch help'' @ dq @ '')'' @ nl)
                 # fst (DONE E False EXIT_FAILURE),
               Returns 1))
       \<and> (\<not> print_version (parse_arguments E argv) \<and> print_help (parse_arguments E argv)
           \<and> s \<notin> topic_name ` set help_topics \<longrightarrow>
            main E argv =
              ([Stderr (nl @ ''Sorry, '' @ s @ '' is not a known command. There'' @ sq @
                        ''s not much I can do to help.'' @ nl @ nl)],
               Exits 1))"
proof -
  from assms(2,3) have cn: "command_name_of (parse_arguments E argv) argv = Some s"
    by (simp add: command_name_of_def)
  from assms(4) have nf: "find_command (Some s) = None"
    by (rule find_command_unregistered)
  have plain: "main E argv =
              (Stderr (''Error: Unknown command '' @ sq @ s @ sq @
                       '' (see '' @ dq @ ''notmuch help'' @ dq @ '')'' @ nl)
                 # fst (DONE E False EXIT_FAILURE),
               Returns 1)"
    if "\<not> print_version (parse_arguments E argv)" "\<not> print_help (parse_arguments E argv)"
    using main_unknown [OF assms(1) that] cn nf
    by (simp add: DONE_failure fmt_s_def)
  have with_help: "main E argv =
              ([Stderr (nl @ ''Sorry, '' @ s @ '' is not a known command. There'' @ sq @
                        ''s not much I can do to help.'' @ nl @ nl)],
               Exits 1)"
    if "\<not> print_version (parse_arguments E argv)" "print_help (parse_arguments E argv)"
      "s \<notin> topic_name ` set help_topics"
    using main_help [OF assms(1) that(1,2)] cn help_for_neither_table [OF assms(4) that(3)]
    by (simp add: EXIT_FAILURE_def)
  from main_unregistered_trace [OF assms(1) cn assms(4)] plain with_help
  show ?thesis by blast
qed

theorem unknown_command_fails_witness:
  "0 \<le> opt_index (parse_arguments env0 argv_bogus)
   \<and> opt_index (parse_arguments env0 argv_bogus) < int (length argv_bogus)
   \<and> ''bogus'' = argv_bogus ! nat (opt_index (parse_arguments env0 argv_bogus))
   \<and> Some ''bogus'' \<notin> name ` set commands
   \<and> \<not> print_version (parse_arguments env0 argv_bogus)
   \<and> \<not> print_help (parse_arguments env0 argv_bogus)
   \<and> main env0 argv_bogus =
       ([Stderr (''Error: Unknown command '' @ sq @ ''bogus'' @ sq @
                 '' (see '' @ dq @ ''notmuch help'' @ dq @ '')'' @ nl)],
        Returns 1)"
proof -
  have h: "0 \<le> opt_index (parse_arguments env0 argv_bogus)"
    "opt_index (parse_arguments env0 argv_bogus) < int (length argv_bogus)"
    "''bogus'' = argv_bogus ! nat (opt_index (parse_arguments env0 argv_bogus))"
    "Some ''bogus'' \<notin> name ` set commands"
    by (simp_all add: env0_def argv_bogus_def command_names)
  have f: "\<not> print_version (parse_arguments env0 argv_bogus)"
    "\<not> print_help (parse_arguments env0 argv_bogus)"
    by (simp_all add: env0_def)
  have d: "fst (DONE env0 False EXIT_FAILURE) = []"
    by (simp add: DONE_eq env0_def)
  from unknown_command_fails [OF h] h f d show ?thesis
    by simp
qed

text \<open>
  C7, as stated, fails: the diagnostic for a name in neither table is printed without any
  attempt to start the viewer, also where the viewer would start; and where the viewer
  fails to start for a known name, \<open>exec_man\<close> exits with status 1 and the diagnostic is
  not printed.
\<close>

theorem help_for_unknown_counterexample:
  "execlp_man env0 ''notmuch-bogus''
   \<and> help_for env0 (Some ''bogus'') =
       ([Stderr (nl @ ''Sorry, bogus is not a known command. There'' @ sq @
                 ''s not much I can do to help.'' @ nl @ nl)],
        Returns 1)
   \<and> \<not> execlp_man env_man_fails ''notmuch-search''
   \<and> help_for env_man_fails (Some ''search'') =
       ([Execlp_man ''notmuch-search'', Perror ''exec man''], Exits 1)"
  by (simp add: help_for_def find_command_def commands_def help_topics_def exec_man_def
      seq_def fmt_s_def env_man_fails_def env0_def EXIT_FAILURE_def)

text \<open>
  C7, amended. For a name in neither table the help resolver prints the "not a known
  command" diagnostic and returns failure, with no attempt to delegate. It returns failure
  only for such a name. For a name in one of the tables (other than \<open>help\<close>) for which
  the viewer fails to start, it prints the system error and exits with status 1.
\<close>

theorem help_for_unknown_topic:
  "(Some t \<notin> name ` set commands \<and> t \<notin> topic_name ` set help_topics \<longrightarrow>
      help_for E (Some t) =
        ([Stderr (nl @ ''Sorry, '' @ t @ '' is not a known command. There'' @ sq @
                  ''s not much I can do to help.'' @ nl @ nl)],
         Returns EXIT_FAILURE))
   \<and> (snd (help_for E topic) = Returns EXIT_FAILURE \<longrightarrow>
        (\<exists>u. topic = Some u \<and> Some u \<notin> name ` set commands
             \<and> u \<notin> topic_name ` set help_topics))
   \<and> ((Some t \<in> name ` set commands \<or> t \<in> topic_name ` set help_topics) \<and> t \<noteq> ''help''
       \<and> \<not> execlp_man E (''notmuch-'' @ t) \<longrightarrow>
        help_for E (Some t) =
          ([Execlp_man (''notmuch-'' @ t), Perror ''exec man''], Exits 1))"
proof (intro conjI impI)
  assume "Some t \<notin> name ` set commands \<and> t \<notin> topic_name ` set help_topics"
  then show "help_for E (Some t) =
        ([Stderr (nl @ ''Sorry, '' @ t @ '' is not a known command. There'' @ sq @
                  ''s not much I can do to help.'' @ nl @ nl)],
         Returns EXIT_FAILURE)"
    by (simp add: help_for_neither_table)
next
  assume r: "snd (help_for E topic) = Returns EXIT_FAILURE"
  show "\<exists>u. topic = Some u \<and> Some u \<notin> name ` set commands
             \<and> u \<notin> topic_name ` set help_topics"
  proof (cases topic)
    case None
    with r show ?thesis
      by (simp add: help_for_None EXIT_SUCCESS_def EXIT_FAILURE_def)
  next
    case (Some u)
    show ?thesis
    proof (cases "u = ''help''")
      case True
      with r Some show ?thesis
        by (simp add: help_for_help EXIT_SUCCESS_def EXIT_FAILURE_def)
    next
      case False
      show ?thesis
      proof (cases "Some u \<in> name ` set commands \<or> u \<in> topic_name ` set help_topics")
        case True
        from help_for_delegates [OF True False, of E] r Some show ?thesis
          by (simp split: if_splits)
      next
        case False
        with Some show ?thesis by simp
      qed
    qed
  qed
next
  assume "(Some t \<in> name ` set commands \<or> t \<in> topic_name ` set help_topics) \<and> t \<noteq> ''help''
       \<and> \<not> execlp_man E (''notmuch-'' @ t)"
  then show "help_for E (Some t) =
          ([Execlp_man (''notmuch-'' @ t), Perror ''exec man''], Exits 1)"
    by (simp add: help_for_delegates)
qed

theorem help_for_unknown_topic_witness:
  "Some ''bogus'' \<notin> name ` set commands \<and> ''bogus'' \<notin> topic_name ` set help_topics
   \<and> help_for env_man_fails (Some ''bogus'') =
       ([Stderr (nl @ ''Sorry, bogus is not a known command. There'' @ sq @
                 ''s not much I can do to help.'' @ nl @ nl)],
        Returns 1)
   \<and> ''hooks'' \<in> topic_name ` set help_topics \<and> ''hooks'' \<noteq> ''help''
   \<and> \<not> execlp_man env_man_fails ''notmuch-hooks''
   \<and> help_for env_man_fails (Some ''hooks'') =
       ([Execlp_man ''notmuch-hooks'', Perror ''exec man''], Exits 1)"
proof -
  have h: "Some ''bogus'' \<notin> name ` set commands" "''bogus'' \<notin> topic_name ` set help_topics"
    "''hooks'' \<in> topic_name ` set help_topics" "''hooks'' \<noteq> ''help''"
    "\<not> execlp_man env_man_fails (''notmuch-'' @ ''hooks'')"
    by (simp_all add: command_names help_topics_def env_man_fails_def)
  from help_for_unknown_topic [of "''bogus''" env_man_fails]
    help_for_unknown_topic [of "''hooks''" env_man_fails] h
  show ?thesis
    by (simp add: EXIT_FAILURE_def)
qed

text \<open>
  C9. With the report variable set to a non-empty path, the teardown tries to open that
  path for writing. If that fails, every status \<open>main\<close> returns is 1, whatever the hook
  returned; if it succeeds, the report is written and the status is unchanged.
\<close>

theorem talloc_report_status:
  assumes "getenv E ''NOTMUCH_TALLOC_REPORT'' = Some p" and "p \<noteq> []"
  shows "DONE E config ret =
           ((if config then [Config_close] else []) @
            (if fopen_w E p then [Fopen_w p True, Talloc_report_full]
             else [Fopen_w p False, Stderr ''ERROR: unable to write talloc log. '', Perror p]),
            Returns (if fopen_w E p then ret else 1))
       \<and> (\<forall>r. \<not> fopen_w E p \<and> snd (main E argv) = Returns r \<longrightarrow> r = 1)
       \<and> (\<forall>c h. 0 \<le> opt_index (parse_arguments E argv)
            \<and> \<not> print_version (parse_arguments E argv) \<and> \<not> print_help (parse_arguments E argv)
            \<and> find_command (command_name_of (parse_arguments E argv) argv) = Some c
            \<and> notmuch_config_open E (config_file_name (parse_arguments E argv)) (create_config c)
            \<and> run_command E (func c) (drop (nat (opt_index (parse_arguments E argv))) argv)
                = Returns h \<longrightarrow>
              snd (main E argv) = Returns (if fopen_w E p then h else 1)
              \<and> Fopen_w p (fopen_w E p) \<in> set (fst (main E argv)))"
proof (intro conjI allI impI)
  show "DONE E config ret =
           ((if config then [Config_close] else []) @
            (if fopen_w E p then [Fopen_w p True, Talloc_report_full]
             else [Fopen_w p False, Stderr ''ERROR: unable to write talloc log. '', Perror p]),
            Returns (if fopen_w E p then ret else 1))"
    using assms by (simp add: DONE_eq)
next
  fix r
  assume a: "\<not> fopen_w E p \<and> snd (main E argv) = Returns r"
  then obtain config ret where "snd (main E argv) = snd (DONE E config ret)"
    using main_Returns_DONE by blast
  with a assms show "r = 1"
    by (auto simp: DONE_eq)
next
  fix c h
  assume a: "0 \<le> opt_index (parse_arguments E argv)
            \<and> \<not> print_version (parse_arguments E argv) \<and> \<not> print_help (parse_arguments E argv)
            \<and> find_command (command_name_of (parse_arguments E argv) argv) = Some c
            \<and> notmuch_config_open E (config_file_name (parse_arguments E argv)) (create_config c)
            \<and> run_command E (func c) (drop (nat (opt_index (parse_arguments E argv))) argv)
                = Returns h"
  then have "main E argv =
           seq ([Config_open (config_file_name (parse_arguments E argv)) (create_config c) True,
                 Run (func c) (drop (nat (opt_index (parse_arguments E argv))) argv)],
                run_command E (func c) (drop (nat (opt_index (parse_arguments E argv))) argv))
             (\<lambda>ret. DONE E True ret)"
    by (intro main_command) simp_all
  with a have m: "main E argv =
      ([Config_open (config_file_name (parse_arguments E argv)) (create_config c) True,
        Run (func c) (drop (nat (opt_index (parse_arguments E argv))) argv)]
       @ fst (DONE E True h), snd (DONE E True h))"
    by (simp add: seq_Returns)
  from m assms show "snd (main E argv) = Returns (if fopen_w E p then h else 1)"
    by (simp add: DONE_eq)
  from m assms show "Fopen_w p (fopen_w E p) \<in> set (fst (main E argv))"
    by (simp add: DONE_eq)
qed

theorem talloc_report_status_witness:
  "getenv env_report_fails ''NOTMUCH_TALLOC_REPORT'' = Some ''/nonexistent/report''
   \<and> ''/nonexistent/report'' \<noteq> []
   \<and> \<not> fopen_w env_report_fails ''/nonexistent/report''
   \<and> run_command env_report_fails notmuch_search_command [''search'', ''tag:inbox''] = Returns 0
   \<and> main env_report_fails argv_search =
       ([Config_open None False True, Run notmuch_search_command [''search'', ''tag:inbox''],
         Config_close, Fopen_w ''/nonexistent/report'' False,
         Stderr ''ERROR: unable to write talloc log. '', Perror ''/nonexistent/report''],
        Returns 1)"
proof -
  have g: "getenv env_report_fails ''NOTMUCH_TALLOC_REPORT'' = Some ''/nonexistent/report''"
    "''/nonexistent/report'' \<noteq> []"
    by (simp_all add: env_report_fails_def)
  have p: "0 \<le> opt_index (parse_arguments env_report_fails argv_search)"
    "\<not> print_version (parse_arguments env_report_fails argv_search)"
    "\<not> print_help (parse_arguments env_report_fails argv_search)"
    by (simp_all add: env_report_fails_def env0_def)
  have c: "find_command (command_name_of (parse_arguments env_report_fails argv_search)
      argv_search) =
      Some \<lparr>name = Some ''search'', func = notmuch_search_command, create_config = False,
             summary = ''Search for messages matching the given search terms.''\<rparr>"
    by (simp add: command_name_of_def env_report_fails_def env0_def argv_search_def
        find_command_def commands_def)
  have o: "notmuch_config_open env_report_fails
      (config_file_name (parse_arguments env_report_fails argv_search)) False"
    "\<not> fopen_w env_report_fails ''/nonexistent/report''"
    by (simp_all add: env_report_fails_def env0_def)
  have r: "run_command env_report_fails notmuch_search_command
      (drop (nat (opt_index (parse_arguments env_report_fails argv_search))) argv_search)
      = Returns 0"
    "run_command env_report_fails notmuch_search_command [''search'', ''tag:inbox''] = Returns 0"
    by (simp_all add: env_report_fails_def env0_def)
  have e: "fst (main env_report_fails argv_search) =
      [Config_open None False True, Run notmuch_search_command [''search'', ''tag:inbox''],
         Config_close, Fopen_w ''/nonexistent/report'' False,
         Stderr ''ERROR: unable to write talloc log. '', Perror ''/nonexistent/report'']"
    using main_command [OF p c] o r
    by (simp add: seq_Returns DONE_eq env_report_fails_def env0_def argv_search_def)
  from talloc_report_status [OF g, where argv = argv_search] p c o r
  have "snd (main env_report_fails argv_search) = Returns 1"
    by simp
  with e g o r show ?thesis
    by (simp add: prod_eq_iff)
qed

text \<open>
  C10. \<open>find_command\<close> returns null for the empty string; the entry without a name is
  found for the null name only. An invocation whose command name is the empty string
  never runs a hook and never opens the configuration, and without the version and help
  options it prints the unknown-command diagnostic and returns 1.
\<close>

theorem empty_command_name_unknown:
  "find_command (Some []) = None
   \<and> (\<exists>d. find_command None = Some d \<and> name d = None \<and> func d = notmuch_command)
   \<and> (\<forall>nm d. find_command nm = Some d \<and> name d = None \<longrightarrow> nm = None)
   \<and> (0 \<le> opt_index (parse_arguments E argv)
       \<and> opt_index (parse_arguments E argv) < int (length argv)
       \<and> argv ! nat (opt_index (parse_arguments E argv)) = [] \<longrightarrow>
         command_runs (fst (main E argv)) = 0 \<and> config_open_calls (fst (main E argv)) = 0
         \<and> (\<not> print_version (parse_arguments E argv) \<and> \<not> print_help (parse_arguments E argv) \<longrightarrow>
              main E argv =
                (Stderr (''Error: Unknown command '' @ sq @ sq @
                         '' (see '' @ dq @ ''notmuch help'' @ dq @ '')'' @ nl)
                   # fst (DONE E False EXIT_FAILURE),
                 Returns 1)))"
proof (intro conjI allI impI)
  show e: "find_command (Some []) = None"
    by (simp add: find_command_def commands_def)
  show "\<exists>d. find_command None = Some d \<and> name d = None \<and> func d = notmuch_command"
    by (simp add: find_command_def commands_def)
  have u: "Some [] \<notin> name ` set commands"
    by (simp add: command_names)
  {
    fix nm d
    assume "find_command nm = Some d \<and> name d = None"
    then show "nm = None"
      using find_command_from_Some [of commands nm d] by (simp add: find_command_def)
  }
  {
    assume a: "0 \<le> opt_index (parse_arguments E argv)
       \<and> opt_index (parse_arguments E argv) < int (length argv)
       \<and> argv ! nat (opt_index (parse_arguments E argv)) = []"
    then have cn: "command_name_of (parse_arguments E argv) argv = Some []"
      by (simp add: command_name_of_def)
    from a have ok: "0 \<le> opt_index (parse_arguments E argv)"
      by simp
    from main_unregistered_trace [OF ok cn u]
    show "command_runs (fst (main E argv)) = 0" and "config_open_calls (fst (main E argv)) = 0"
      by simp_all
    assume f: "\<not> print_version (parse_arguments E argv) \<and> \<not> print_help (parse_arguments E argv)"
    then have nv: "\<not> print_version (parse_arguments E argv)"
      and nh: "\<not> print_help (parse_arguments E argv)"
      by simp_all
    from cn e have "find_command (command_name_of (parse_arguments E argv) argv) = None"
      by simp
    from main_unknown [OF ok nv nh this] cn
    show "main E argv =
                (Stderr (''Error: Unknown command '' @ sq @ sq @
                         '' (see '' @ dq @ ''notmuch help'' @ dq @ '')'' @ nl)
                   # fst (DONE E False EXIT_FAILURE),
                 Returns 1)"
      by (simp add: DONE_failure fmt_s_def)
  }
qed

theorem empty_command_name_unknown_witness:
  "0 \<le> opt_index (parse_arguments env0 argv_empty_name)
   \<and> opt_index (parse_arguments env0 argv_empty_name) < int (length argv_empty_name)
   \<and> argv_empty_name ! nat (opt_index (parse_arguments env0 argv_empty_name)) = []
   \<and> \<not> print_version (parse_arguments env0 argv_empty_name)
   \<and> \<not> print_help (parse_arguments env0 argv_empty_name)
   \<and> main env0 argv_empty_name =
       ([Stderr (''Error: Unknown command '' @ sq @ sq @
                 '' (see '' @ dq @ ''notmuch help'' @ dq @ '')'' @ nl)],
        Returns 1)"
proof -
  have h: "0 \<le> opt_index (parse_arguments env0 argv_empty_name)"
    "opt_index (parse_arguments env0 argv_empty_name) < int (length argv_empty_name)"
    "argv_empty_name ! nat (opt_index (parse_arguments env0 argv_empty_name)) = []"
    "\<not> print_version (parse_arguments env0 argv_empty_name)"
    "\<not> print_help (parse_arguments env0 argv_empty_name)"
    by (simp_all add: env0_def argv_empty_name_def)
  have d: "fst (DONE env0 False EXIT_FAILURE) = []"
    by (simp add: DONE_eq env0_def)
  from empty_command_name_unknown [where E = env0 and argv = argv_empty_name] h d show ?thesis
    by simp
qed

end
